theory Spec2Isabelle
  imports Main
begin

section \<open>JavaScript values and property reads\<close>

text \<open>
  The route module and the \<open>Welcome\<close> component only move values around, so the
  values are modelled as far as the code inspects them: \<open>undefined\<close>, \<open>null\<close>,
  strings, and objects as association lists of own properties. Of a string the code
  inspects only whether it is empty. Other kinds of values (numbers, booleans,
  functions) are not modelled: the program neither builds nor inspects one.
\<close>

datatype jsval =
    JUndefined
  | JNull
  | JStr string
  | JObj "(string \<times> jsval) list"

text \<open>The only exception the code can raise: reading a property of \<open>undefined\<close> or \<open>null\<close>.\<close>

datatype error = TypeError

text \<open>Reading an own property of an object: a missing property reads as \<open>undefined\<close>.\<close>

definition own_prop :: "(string \<times> jsval) list \<Rightarrow> string \<Rightarrow> jsval" where
  "own_prop fs k = (case map_of fs k of None \<Rightarrow> JUndefined | Some v \<Rightarrow> v)"

text \<open>
  The member expression \<open>v.k\<close>, and the destructuring pattern \<open>{ k }\<close> applied to \<open>v\<close>.
  On \<open>undefined\<close> and \<open>null\<close> it raises; on a string it reads \<open>undefined\<close> for every
  name the string prototype does not define. Names supplied by built-in prototypes
  (\<open>length\<close>, \<open>constructor\<close>, ...) are not modelled; none of the names this program
  reads (\<open>context\<close>, \<open>cloudflare\<close>, \<open>env\<close>, \<open>VALUE_FROM_CLOUDFLARE\<close>, \<open>loaderData\<close>,
  \<open>message\<close>) is one of them.
\<close>

definition get_prop :: "jsval \<Rightarrow> string \<Rightarrow> error + jsval" where
  "get_prop v k =
     (case v of
        JUndefined \<Rightarrow> Inl TypeError
      | JNull \<Rightarrow> Inl TypeError
      | JStr s \<Rightarrow> Inr JUndefined
      | JObj fs \<Rightarrow> Inr (own_prop fs k))"

text \<open>JavaScript truthiness, which decides the operator \<open>&&\<close>.\<close>

definition truthy :: "jsval \<Rightarrow> bool" where
  "truthy v =
     (case v of
        JUndefined \<Rightarrow> False
      | JNull \<Rightarrow> False
      | JStr s \<Rightarrow> s \<noteq> []
      | JObj fs \<Rightarrow> True)"

text \<open>\<open>Object.keys\<close>: the names of the own properties, in order.\<close>

definition keys :: "jsval \<Rightarrow> string list" where
  "keys v = (case v of JObj fs \<Rightarrow> map fst fs | _ \<Rightarrow> [])"

section \<open>React elements\<close>

text \<open>
  The value a component returns: an element with its tag, its \<open>className\<close> and its
  children, or a plain JavaScript value in child position (JSX text is a string child).
\<close>

datatype node =
    Elem string string "node list"
  | Val jsval

section \<open>The route module\<close>

text \<open>
  \<^verbatim>\<open>export function meta(_args: Route.MetaArgs) {
    return [
        { title: "Kognova Nexus" },
        { name: "description", content: "Centralized Document Repository" },
    ];
}\<close>
\<close>

definition meta :: "jsval \<Rightarrow> jsval list" where
  "meta args =
     [JObj [(''title'', JStr ''Kognova Nexus'')],
      JObj [(''name'', JStr ''description''),
            (''content'', JStr ''Centralized Document Repository'')]]"

text \<open>
  \<^verbatim>\<open>export function loader({ context }: Route.LoaderArgs) {
    return { message: context.cloudflare.env.VALUE_FROM_CLOUDFLARE };
}\<close>
  One destructuring and three member reads, each of which raises on \<open>undefined\<close> or
  \<open>null\<close>, then an object literal with the single property \<open>message\<close>.
\<close>

definition loader :: "jsval \<Rightarrow> error + jsval" where
  "loader args =
     (case get_prop args ''context'' of
        Inl e \<Rightarrow> Inl e
      | Inr context \<Rightarrow>
     (case get_prop context ''cloudflare'' of
        Inl e \<Rightarrow> Inl e
      | Inr cloudflare \<Rightarrow>
     (case get_prop cloudflare ''env'' of
        Inl e \<Rightarrow> Inl e
      | Inr env \<Rightarrow>
     (case get_prop env ''VALUE_FROM_CLOUDFLARE'' of
        Inl e \<Rightarrow> Inl e
      | Inr v \<Rightarrow> Inr (JObj [(''message'', v)])))))"

section \<open>The Welcome component\<close>

text \<open>
  \<^verbatim>\<open>export function Welcome({ message }: { message: string }) { return ( <main ...> ... ); }\<close>
  The third child of the inner \<open>div\<close> is \<open>message && (<div ...>...</div>)\<close>: the banner
  when \<open>message\<close> is truthy, and otherwise the value of \<open>message\<close> itself.
\<close>

definition Welcome :: "jsval \<Rightarrow> error + node" where
  "Welcome props =
     (case get_prop props ''message'' of
        Inl e \<Rightarrow> Inl e
      | Inr message \<Rightarrow>
          Inr (Elem ''main''
                 ''flex items-center justify-center min-h-screen bg-gray-100 dark:bg-gray-900''
                 [Elem ''div'' ''text-center p-8''
                    [Elem ''h1'' ''text-5xl font-bold mb-6 text-gray-800 dark:text-white''
                       [Val (JStr ''Kognova Nexus MotherFucker'')],
                     Elem ''p'' ''text-xl text-gray-600 dark:text-gray-300''
                       [Val (JStr ''A centralized document repository'')],
                     (if truthy message
                      then Elem ''div'' ''mt-8 p-4 bg-white dark:bg-gray-800 rounded-lg shadow''
                             [Elem ''p'' ''text-gray-700 dark:text-gray-300'' [Val message]]
                      else Val message)]]))"

text \<open>
  \<^verbatim>\<open>export default function Home({ loaderData }: Route.ComponentProps) {
    return <Welcome message={loaderData.message} />;
}\<close>
  Rendering the element \<open><Welcome message={x} />\<close> is the call of \<open>Welcome\<close> on the
  props object \<open>{ message: x }\<close>.
\<close>

definition Home :: "jsval \<Rightarrow> error + node" where
  "Home props =
     (case get_prop props ''loaderData'' of
        Inl e \<Rightarrow> Inl e
      | Inr loaderData \<Rightarrow>
     (case get_prop loaderData ''message'' of
        Inl e \<Rightarrow> Inl e
      | Inr m \<Rightarrow> Welcome (JObj [(''message'', m)])))"

section \<open>Observations used to state the properties\<close>

text \<open>
  The loader's argument type \<open>Route.LoaderArgs\<close> is generated code that is not part of
  the sources; what the loader relies on is that \<open>args.context.cloudflare.env\<close> is an
  object. \<open>env_of\<close> returns the own properties of that object for an argument of that
  shape, whatever other fields the argument, the context or the environment carry,
  and \<open>None\<close> for any other value.
\<close>

definition env_of :: "jsval \<Rightarrow> (string \<times> jsval) list option" where
  "env_of args =
     (case args of
        JObj a \<Rightarrow>
          (case map_of a ''context'' of
             Some (JObj c) \<Rightarrow>
               (case map_of c ''cloudflare'' of
                  Some (JObj cf) \<Rightarrow>
                    (case map_of cf ''env'' of
                       Some (JObj e) \<Rightarrow> Some e
                     | _ \<Rightarrow> None)
                | _ \<Rightarrow> None)
           | _ \<Rightarrow> None)
      | _ \<Rightarrow> None)"

text \<open>All nodes of a tree, the root first.\<close>

fun subnodes :: "node \<Rightarrow> node list" where
  "subnodes (Elem t c ks) = Elem t c ks # concat (map subnodes ks)"
| "subnodes (Val v) = [Val v]"

text \<open>The banner is the \<open>div\<close> carrying the rounded, shadowed container's class list.\<close>

fun is_banner :: "node \<Rightarrow> bool" where
  "is_banner (Elem t c ks) =
     (t = ''div'' \<and> c = ''mt-8 p-4 bg-white dark:bg-gray-800 rounded-lg shadow'')"
| "is_banner (Val v) = False"

definition banners :: "node \<Rightarrow> node list" where
  "banners t = filter is_banner (subnodes t)"

text \<open>Whether a loader outcome is an object whose \<open>message\<close> property is a string.\<close>

definition message_is_string :: "error + jsval \<Rightarrow> bool" where
  "message_is_string r =
     (case r of
        Inr (JObj fs) \<Rightarrow> (case map_of fs ''message'' of Some (JStr s) \<Rightarrow> True | _ \<Rightarrow> False)
      | _ \<Rightarrow> False)"

section \<open>Helper facts\<close>

lemma get_prop_obj: "get_prop (JObj fs) k = Inr (own_prop fs k)"
  by (simp add: get_prop_def)

lemma own_prop_Some: "map_of fs k = Some v \<Longrightarrow> own_prop fs k = v"
  by (simp add: own_prop_def)

lemma env_of_shape:
  assumes "env_of args = Some e"
  obtains a c cf where "args = JObj a" and "map_of a ''context'' = Some (JObj c)"
    and "map_of c ''cloudflare'' = Some (JObj cf)" and "map_of cf ''env'' = Some (JObj e)"
  using assms unfolding env_of_def
  by (auto split: jsval.splits option.splits)

lemma loader_on_env:
  assumes "env_of args = Some e"
  shows "loader args = Inr (JObj [(''message'', own_prop e ''VALUE_FROM_CLOUDFLARE'')])"
proof -
  from assms obtain a c cf where "args = JObj a"
    and "map_of a ''context'' = Some (JObj c)"
    and "map_of c ''cloudflare'' = Some (JObj cf)"
    and "map_of cf ''env'' = Some (JObj e)"
    by (rule env_of_shape)
  then show ?thesis
    by (simp add: loader_def get_prop_obj own_prop_Some)
qed

lemma Welcome_on_string:
  assumes "own_prop ps ''message'' = JStr s"
  shows "Welcome (JObj ps) =
     Inr (Elem ''main''
            ''flex items-center justify-center min-h-screen bg-gray-100 dark:bg-gray-900''
            [Elem ''div'' ''text-center p-8''
               [Elem ''h1'' ''text-5xl font-bold mb-6 text-gray-800 dark:text-white''
                  [Val (JStr ''Kognova Nexus MotherFucker'')],
                Elem ''p'' ''text-xl text-gray-600 dark:text-gray-300''
                  [Val (JStr ''A centralized document repository'')],
                (if s \<noteq> []
                 then Elem ''div'' ''mt-8 p-4 bg-white dark:bg-gray-800 rounded-lg shadow''
                        [Elem ''p'' ''text-gray-700 dark:text-gray-300'' [Val (JStr s)]]
                 else Val (JStr s))]])"
  using assms by (simp add: Welcome_def get_prop_obj truthy_def)

section \<open>The Welcome component renders the banner exactly for a non-empty message\<close>

text \<open>
  Claim C1. For every string message passed to \<open>Welcome\<close>, the component returns a tree;
  if the message is non-empty the tree contains the banner \<open>div\<close>, and if the message is
  the empty string the tree contains no banner \<open>div\<close>.
\<close>

theorem C1_banner_iff_message_nonempty:
  assumes "own_prop ps ''message'' = JStr s"
  shows "\<exists>t. Welcome (JObj ps) = Inr t
           \<and> (s \<noteq> [] \<longrightarrow> banners t \<noteq> [])
           \<and> (s = [] \<longrightarrow> banners t = [])"
  using Welcome_on_string [OF assms] by (simp add: banners_def)

theorem C1_banner_iff_message_nonempty_witness:
  "(\<exists>t. Welcome (JObj [(''message'', JStr ''hello'')]) = Inr t \<and> banners t \<noteq> [])
   \<and> (\<exists>t. Welcome (JObj [(''message'', JStr '''')]) = Inr t \<and> banners t = [])"
  using C1_banner_iff_message_nonempty [of "[(''message'', JStr ''hello'')]" "''hello''"]
    C1_banner_iff_message_nonempty [of "[(''message'', JStr '''')]" "''''"]
  by (simp add: own_prop_def)

section \<open>The loader\<close>

text \<open>
  Claim C2. For every request context, the loader returns the object whose \<open>message\<close>
  field is the value of the environment variable \<open>VALUE_FROM_CLOUDFLARE\<close> read from the
  context; the result is determined by that one lookup and nothing else.
\<close>

theorem C2_loader_returns_env_value:
  assumes "env_of args = Some e"
  shows "loader args = Inr (JObj [(''message'', own_prop e ''VALUE_FROM_CLOUDFLARE'')])"
  using assms by (rule loader_on_env)

theorem C2_loader_returns_env_value_witness:
  "loader (JObj [(''request'', JNull),
                 (''context'', JObj [(''cloudflare'',
                    JObj [(''env'', JObj [(''VALUE_FROM_CLOUDFLARE'', JStr ''Hello from Cloudflare'')]),
                          (''ctx'', JObj [])])])])
   = Inr (JObj [(''message'', JStr ''Hello from Cloudflare'')])"
  using C2_loader_returns_env_value
    [of "JObj [(''request'', JNull),
               (''context'', JObj [(''cloudflare'',
                  JObj [(''env'', JObj [(''VALUE_FROM_CLOUDFLARE'', JStr ''Hello from Cloudflare'')]),
                        (''ctx'', JObj [])])])]"
        "[(''VALUE_FROM_CLOUDFLARE'', JStr ''Hello from Cloudflare'')]"]
  by (simp add: env_of_def own_prop_def)

text \<open>
  Claim C3, as stated: the loader's \<open>message\<close> field is a string for every request
  context. It fails for a context whose environment does not define
  \<open>VALUE_FROM_CLOUDFLARE\<close>: the field is then \<open>undefined\<close>.
\<close>

theorem C3_message_undefined_counterexample:
  "env_of (JObj [(''context'', JObj [(''cloudflare'',
               JObj [(''env'', JObj [])])])]) = Some []
   \<and> loader (JObj [(''context'', JObj [(''cloudflare'',
                      JObj [(''env'', JObj [])])])]) = Inr (JObj [(''message'', JUndefined)])
   \<and> \<not> message_is_string (loader (JObj [(''context'', JObj [(''cloudflare'',
                                                JObj [(''env'', JObj [])])])]))"
  by (simp add: env_of_def loader_def get_prop_def own_prop_def message_is_string_def)

text \<open>
  Claim C3, amended. For every request context whose environment defines
  \<open>VALUE_FROM_CLOUDFLARE\<close> as a string (possibly empty), the loader's \<open>message\<close> field is
  that string, and the \<open>Welcome\<close> component is defined on it, as it is for every string
  message.
\<close>

theorem C3_message_string_when_env_string:
  assumes "env_of args = Some e" and "own_prop e ''VALUE_FROM_CLOUDFLARE'' = JStr s"
  shows "message_is_string (loader args)
         \<and> loader args = Inr (JObj [(''message'', JStr s)])
         \<and> (\<exists>t. Welcome (JObj [(''message'', JStr s)]) = Inr t)"
proof -
  have l: "loader args = Inr (JObj [(''message'', JStr s)])"
    using loader_on_env [OF assms(1)] assms(2) by simp
  have w: "own_prop [(''message'', JStr s)] ''message'' = JStr s"
    by (simp add: own_prop_def)
  show ?thesis
    using l Welcome_on_string [OF w] by (simp add: message_is_string_def)
qed

theorem C3_message_string_when_env_string_witness:
  "message_is_string (loader (JObj [(''context'', JObj [(''cloudflare'',
                                  JObj [(''env'', JObj [(''VALUE_FROM_CLOUDFLARE'', JStr '''')])])])]))
   \<and> loader (JObj [(''context'', JObj [(''cloudflare'',
                      JObj [(''env'', JObj [(''VALUE_FROM_CLOUDFLARE'', JStr '''')])])])]) = Inr (JObj [(''message'', JStr '''')])
   \<and> (\<exists>t. Welcome (JObj [(''message'', JStr '''')]) = Inr t)"
  using C3_message_string_when_env_string
    [of "JObj [(''context'', JObj [(''cloudflare'',
             JObj [(''env'', JObj [(''VALUE_FROM_CLOUDFLARE'', JStr '''')])])])]" "[(''VALUE_FROM_CLOUDFLARE'', JStr '''')]" "''''"]
  by (simp add: env_of_def own_prop_def message_is_string_def)

text \<open>
  Claim C4. Neither function raises: for every request context, also one whose
  environment does not define \<open>VALUE_FROM_CLOUDFLARE\<close>, the loader returns a result, and
  for every string message the \<open>Welcome\<close> component returns a tree.
\<close>

theorem C4_loader_and_Welcome_do_not_raise:
  assumes "env_of args = Some e" and "own_prop ps ''message'' = JStr s"
  shows "(\<exists>r. loader args = Inr r) \<and> (\<exists>t. Welcome (JObj ps) = Inr t)"
  using loader_on_env [OF assms(1)] Welcome_on_string [OF assms(2)] by simp

theorem C4_loader_and_Welcome_do_not_raise_witness:
  "(\<exists>r. loader (JObj [(''context'', JObj [(''cloudflare'',
                            JObj [(''env'', JObj [])])])]) = Inr r) \<and> (\<exists>t. Welcome (JObj [(''message'', JStr '''')]) = Inr t)"
  using C4_loader_and_Welcome_do_not_raise
    [of "JObj [(''context'', JObj [(''cloudflare'',
             JObj [(''env'', JObj [])])])]" "[]" "[(''message'', JStr '''')]" "''''"]
  by (simp add: env_of_def own_prop_def)

text \<open>
  Claim C10. For every request context, the loader's result object has the single key
  \<open>message\<close> and no other key, and the value under that key is the environment's
  \<open>VALUE_FROM_CLOUDFLARE\<close> alone: nothing else of the environment or the context is in
  the result.
\<close>

theorem C10_loader_result_has_only_message:
  assumes "env_of args = Some e"
  shows "\<exists>r. loader args = Inr r
           \<and> keys r = [''message'']
           \<and> r = JObj [(''message'', own_prop e ''VALUE_FROM_CLOUDFLARE'')]"
  using loader_on_env [OF assms] by (simp add: keys_def)

theorem C10_loader_result_has_only_message_witness:
  "\<exists>r. loader (JObj [(''request'', JObj [(''url'', JStr ''https://example.test/'')]),
                      (''context'', JObj [(''cloudflare'',
                         JObj [(''env'', JObj [(''VALUE_FROM_CLOUDFLARE'', JStr ''v''),
                                               (''SECRET'', JStr ''k'')]),
                               (''ctx'', JObj [])])])]) = Inr r
        \<and> keys r = [''message'']
        \<and> r = JObj [(''message'', JStr ''v'')]"
  using C10_loader_result_has_only_message
    [of "JObj [(''request'', JObj [(''url'', JStr ''https://example.test/'')]),
               (''context'', JObj [(''cloudflare'',
                  JObj [(''env'', JObj [(''VALUE_FROM_CLOUDFLARE'', JStr ''v''),
                                        (''SECRET'', JStr ''k'')]),
                        (''ctx'', JObj [])])])]"
        "[(''VALUE_FROM_CLOUDFLARE'', JStr ''v''), (''SECRET'', JStr ''k'')]"]
  by (simp add: env_of_def own_prop_def)

text \<open>
  Claim C6. The loader reads nothing but \<open>VALUE_FROM_CLOUDFLARE\<close>: on two request
  contexts that agree on that variable it returns the same result, whatever the other
  environment fields are. \<open>Welcome\<close> reads nothing but \<open>message\<close>: on two props objects that
  agree on it, it returns the same tree. Both are functions of their argument alone;
  the source contains no assignment, so there is no state for them to change.
\<close>

theorem C6_loader_and_Welcome_depend_on_one_value:
  assumes "env_of a1 = Some e1" and "env_of a2 = Some e2"
    and "own_prop e1 ''VALUE_FROM_CLOUDFLARE'' = own_prop e2 ''VALUE_FROM_CLOUDFLARE''"
    and "get_prop p1 ''message'' = get_prop p2 ''message''"
  shows "loader a1 = loader a2 \<and> Welcome p1 = Welcome p2"
  using loader_on_env [OF assms(1)] loader_on_env [OF assms(2)] assms(3,4)
  by (simp add: Welcome_def)

theorem C6_loader_and_Welcome_depend_on_one_value_witness:
  "loader (JObj [(''context'', JObj [(''cloudflare'',
               JObj [(''env'', JObj [(''VALUE_FROM_CLOUDFLARE'', JStr ''v''), (''SECRET'', JStr ''k'')])])])]) = loader (JObj [(''context'', JObj [(''cloudflare'',
                                                                                                                                                                                   JObj [(''env'', JObj [(''OTHER'', JObj []), (''VALUE_FROM_CLOUDFLARE'', JStr ''v'')])])])])
   \<and> Welcome (JObj [(''message'', JStr ''v''), (''extra'', JNull)])
     = Welcome (JObj [(''message'', JStr ''v'')])"
  using C6_loader_and_Welcome_depend_on_one_value
    [of "JObj [(''context'', JObj [(''cloudflare'',
             JObj [(''env'', JObj [(''VALUE_FROM_CLOUDFLARE'', JStr ''v''), (''SECRET'', JStr ''k'')])])])]" "[(''VALUE_FROM_CLOUDFLARE'', JStr ''v''), (''SECRET'', JStr ''k'')]"
        "JObj [(''context'', JObj [(''cloudflare'',
             JObj [(''env'', JObj [(''OTHER'', JObj []), (''VALUE_FROM_CLOUDFLARE'', JStr ''v'')])])])]" "[(''OTHER'', JObj []), (''VALUE_FROM_CLOUDFLARE'', JStr ''v'')]"
        "JObj [(''message'', JStr ''v''), (''extra'', JNull)]"
        "JObj [(''message'', JStr ''v'')]"]
  by (simp add: env_of_def own_prop_def get_prop_def)

section \<open>The pipeline from the loader to the Welcome component\<close>

text \<open>
  Claim C5. For every loader result, the \<open>Home\<close> component renders exactly \<open>Welcome\<close>
  applied to that result's \<open>message\<close> field, so the value that reaches \<open>Welcome\<close> is the
  value the loader read from the environment.
\<close>

theorem C5_Home_passes_message_unchanged:
  assumes "env_of args = Some e" and "loader args = Inr r"
    and "own_prop props ''loaderData'' = r"
  shows "get_prop r ''message'' = Inr (own_prop e ''VALUE_FROM_CLOUDFLARE'')
         \<and> Home (JObj props)
           = Welcome (JObj [(''message'', own_prop e ''VALUE_FROM_CLOUDFLARE'')])"
proof -
  have r: "r = JObj [(''message'', own_prop e ''VALUE_FROM_CLOUDFLARE'')]"
    using loader_on_env [OF assms(1)] assms(2) by simp
  have m: "get_prop r ''message'' = Inr (own_prop e ''VALUE_FROM_CLOUDFLARE'')"
    by (simp add: r get_prop_obj own_prop_def)
  show ?thesis
    using m assms(3) by (simp add: Home_def get_prop_obj)
qed

theorem C5_Home_passes_message_unchanged_witness:
  "get_prop (JObj [(''message'', JStr ''v'')]) ''message'' = Inr (JStr ''v'')
   \<and> Home (JObj [(''loaderData'', JObj [(''message'', JStr ''v'')]), (''params'', JObj [])])
     = Welcome (JObj [(''message'', JStr ''v'')])"
  using C5_Home_passes_message_unchanged
    [of "JObj [(''context'', JObj [(''cloudflare'',
             JObj [(''env'', JObj [(''VALUE_FROM_CLOUDFLARE'', JStr ''v''), (''SECRET'', JStr ''k'')])])])]" "[(''VALUE_FROM_CLOUDFLARE'', JStr ''v''), (''SECRET'', JStr ''k'')]"
        "JObj [(''message'', JStr ''v'')]"
        "[(''loaderData'', JObj [(''message'', JStr ''v'')]), (''params'', JObj [])]"]
  by (simp add: env_of_def own_prop_def loader_def get_prop_def)

section \<open>The static part of the Welcome markup\<close>

text \<open>
  Claim C7. For every two message strings, the two trees \<open>Welcome\<close> returns are the same
  static frame (the \<open>main\<close> element, the inner \<open>div\<close>, the heading and the subtitle
  paragraph ``A centralized document repository'') around one slot; the slot holds
  either the banner \<open>div\<close> or the empty string, and is the only place where they differ.
\<close>

theorem C7_Welcome_static_frame:
  assumes "own_prop p1 ''message'' = JStr s1" and "own_prop p2 ''message'' = JStr s2"
  shows "\<exists>frame b1 b2.
           frame = (\<lambda>b. Elem ''main'' ''flex items-center justify-center min-h-screen bg-gray-100 dark:bg-gray-900''
                      [Elem ''div'' ''text-center p-8''
                         [Elem ''h1'' 
                            ''text-5xl font-bold mb-6 text-gray-800 dark:text-white''
                             [Val (JStr ''Kognova Nexus MotherFucker'')],
                          Elem ''p'' ''text-xl text-gray-600 dark:text-gray-300''
                             [Val (JStr ''A centralized document repository'')],
                          b]])
           \<and> Welcome (JObj p1) = Inr (frame b1)
           \<and> Welcome (JObj p2) = Inr (frame b2)
           \<and> (is_banner b1 \<or> b1 = Val (JStr []))
           \<and> (is_banner b2 \<or> b2 = Val (JStr []))"
  using Welcome_on_string [OF assms(1)] Welcome_on_string [OF assms(2)] by simp

theorem C7_Welcome_static_frame_witness:
  "\<exists>frame b1 b2.
           frame = (\<lambda>b. Elem ''main'' ''flex items-center justify-center min-h-screen bg-gray-100 dark:bg-gray-900''
                      [Elem ''div'' ''text-center p-8''
                         [Elem ''h1'' 
                            ''text-5xl font-bold mb-6 text-gray-800 dark:text-white''
                             [Val (JStr ''Kognova Nexus MotherFucker'')],
                          Elem ''p'' ''text-xl text-gray-600 dark:text-gray-300''
                             [Val (JStr ''A centralized document repository'')],
                          b]])
           \<and> Welcome (JObj [(''message'', JStr ''hello'')]) = Inr (frame b1)
           \<and> Welcome (JObj [(''message'', JStr '''')]) = Inr (frame b2)
           \<and> (is_banner b1 \<or> b1 = Val (JStr []))
           \<and> (is_banner b2 \<or> b2 = Val (JStr []))"
  using C7_Welcome_static_frame
    [of "[(''message'', JStr ''hello'')]" "''hello''" "[(''message'', JStr '''')]" "''''"]
  by (simp add: own_prop_def)

text \<open>
  Claim C9. For every non-empty string message, the tree contains exactly one banner
  \<open>div\<close>, whose only child is a paragraph whose only child is the message string
  itself, unchanged.
\<close>

theorem C9_banner_holds_message_verbatim:
  assumes "own_prop ps ''message'' = JStr s" and "s \<noteq> []"
  shows "\<exists>t. Welcome (JObj ps) = Inr t
           \<and> banners t = [Elem ''div'' ''mt-8 p-4 bg-white dark:bg-gray-800 rounded-lg shadow''
                 [Elem ''p'' ''text-gray-700 dark:text-gray-300''
                   [Val (JStr s)]]]"
  using Welcome_on_string [OF assms(1)] assms(2) by (simp add: banners_def)

theorem C9_banner_holds_message_verbatim_witness:
  "\<exists>t. Welcome (JObj [(''message'', JStr ''  Hello, <b>World</b>  '')]) = Inr t
        \<and> banners t
          = [Elem ''div'' ''mt-8 p-4 bg-white dark:bg-gray-800 rounded-lg shadow''
                 [Elem ''p'' ''text-gray-700 dark:text-gray-300''
                   [Val (JStr ''  Hello, <b>World</b>  '')]]]"
  using C9_banner_holds_message_verbatim
    [of "[(''message'', JStr ''  Hello, <b>World</b>  '')]" "''  Hello, <b>World</b>  ''"]
  by (simp add: own_prop_def)

section \<open>The route's meta function\<close>

text \<open>
  Claim C8. \<open>meta\<close> is a constant function: for every argument it returns the two-element
  list of the title entry ``Kognova Nexus'' and the description entry ``Centralized
  Document Repository''.
\<close>

theorem C8_meta_constant:
  "meta args =
     [JObj [(''title'', JStr ''Kognova Nexus'')],
      JObj [(''name'', JStr ''description''),
            (''content'', JStr ''Centralized Document Repository'')]]
   \<and> meta args = meta args'"
  by (simp add: meta_def)

end
